theory Spec2Isabelle
  imports Main "HOL-Library.Word" "HOL-Library.Sublist"
begin

unbundle bit_operations_syntax

section \<open>Package lock: Redis-backed distributed locks\<close>

text \<open>
  The Redis server is the shared state of the lock package. It is a map from key to an
  entry holding the stored string and the instant at which the key expires; the clock is an
  input (\<open>now\<close>) of every command, and an expired entry reads as absent, as Redis does.
  Durations and instants are natural numbers of the same unit. A command that does not
  reach the server (network failure, context deadline) is an input flag of the call: it
  returns the client error and leaves the server unchanged.
\<close>

record redis_entry =
  entry_value :: string
  expires_at :: nat

type_synonym redis = "string \<Rightarrow> redis_entry option"

definition redis_GET :: "nat \<Rightarrow> redis \<Rightarrow> string \<Rightarrow> string option" where
  "redis_GET now kv k =
     (case kv k of
        None \<Rightarrow> None
      | Some e \<Rightarrow> if now < expires_at e then Some (entry_value e) else None)"

definition redis_DEL :: "redis \<Rightarrow> string \<Rightarrow> redis" where
  "redis_DEL kv k = kv(k := None)"


datatype lock_error = ErrLockNotAcquired | ErrRedis


record RedisLock =
  lock_key :: string
  lock_value :: string


text \<open>\<open>hex.EncodeToString\<close>: two lower-case hexadecimal digits per byte.\<close>

definition hexdigit :: "nat \<Rightarrow> char" where
  "hexdigit n = ''0123456789abcdef'' ! (n mod 16)"

definition hex_byte :: "8 word \<Rightarrow> string" where
  "hex_byte b = [hexdigit (unat (drop_bit 4 b)), hexdigit (unat (b AND 15))]"

definition hex_EncodeToString :: "8 word list \<Rightarrow> string" where
  "hex_EncodeToString bs = concat (map hex_byte bs)"




text \<open>
  The script of \<open>Release\<close>, run by the server as one command:
  \<^verbatim>\<open>if redis.call("GET", KEYS[1]) == ARGV[1] then return redis.call("DEL", KEYS[1]) else return 0 end\<close>
\<close>

definition release_script :: "nat \<Rightarrow> redis \<Rightarrow> string \<Rightarrow> string \<Rightarrow> int \<times> redis" where
  "release_script now kv key1 argv1 =
     (if redis_GET now kv key1 = Some argv1 then (1, redis_DEL kv key1) else (0, kv))"

definition Release :: "bool \<Rightarrow> nat \<Rightarrow> RedisLock \<Rightarrow> redis \<Rightarrow> lock_error option \<times> redis" where
  "Release down now l kv =
     (if down then (Some ErrRedis, kv)
      else (None, snd (release_script now kv (lock_key l) (lock_value l))))"

text \<open>A store in which listing 1001 is locked by the holder of value \<open>a1\<close> until instant 10.\<close>

definition held_store :: redis where
  "held_store = Map.empty(''lock:1001'' \<mapsto> \<lparr>entry_value = ''a1'', expires_at = 10\<rparr>)"


section \<open>Package store: the orders table\<close>

text \<open>
  \<open>OrderStatus\<close> is a string type of the source with seven named values.
\<close>

type_synonym OrderStatus = string

definition OrderStatusInit :: OrderStatus where "OrderStatusInit = ''INIT''"
definition OrderStatusListed :: OrderStatus where "OrderStatusListed = ''LISTED''"
definition OrderStatusLocked :: OrderStatus where "OrderStatusLocked = ''LOCKED''"
definition OrderStatusSettling :: OrderStatus where "OrderStatusSettling = ''SETTLING''"
definition OrderStatusSuccess :: OrderStatus where "OrderStatusSuccess = ''SUCCESS''"
definition OrderStatusFailed :: OrderStatus where "OrderStatusFailed = ''FAILED''"
definition OrderStatusCanceled :: OrderStatus where "OrderStatusCanceled = ''CANCELED''"

text \<open>
  The struct \<open>Order\<close>. Go's \<open>int64\<close> is a 64-bit word and \<open>int8\<close> an 8-bit word. The two
  timestamps \<open>CreatedAt\<close> and \<open>UpdatedAt\<close> are assigned by the database clock and written by
  no statement of the package; they are left out of the struct and of the row.
\<close>

record Order =
  OrderID :: "64 word"
  ListingID :: "64 word"
  Seller :: string
  Buyer :: string
  NFTName :: string
  NFTAddress :: string
  URL :: string
  TokenID :: "64 word"
  Amount :: "64 word"
  Price :: string
  Status :: OrderStatus
  TxHash :: string
  Deleted :: "8 word"

text \<open>
  A row of table \<open>orders\<close>, without its unique key \<open>listing_id\<close>: the table is a map from
  \<open>listing_id\<close> to the row, so that it holds at most one row per listing, as the unique
  index \<open>uk_orders_listing_id\<close> enforces. The columns read through \<open>IFNULL\<close> may be NULL
  (\<open>None\<close>). \<open>order_id\<close> is the auto-increment primary key; the table keeps the next value
  to hand out. Rows whose \<open>listing_id\<close> is NULL match neither the query nor the upsert
  below and are not represented. Every column holds the value the statement hands it.
  The second unique index of the table, on \<open>tx_hash\<close>, is not represented: a write whose
  transaction hash is already stored with another listing is outside this model.
\<close>

record order_row =
  order_id :: "64 word"
  seller :: string
  buyer :: "string option"
  nft_name :: "string option"
  nft_address :: string
  url :: "string option"
  token_id :: "64 word"
  amount :: "64 word"
  price :: string
  status :: OrderStatus
  tx_hash :: "string option"
  deleted :: "8 word"

record orders_db =
  orders :: "64 word \<Rightarrow> order_row option"
  next_order_id :: "64 word"

text \<open>
  Errors are values. \<open>ErrNoRows\<close> is \<open>sql.ErrNoRows\<close>; \<open>ErrDB\<close> stands for every other
  failure of a statement (connection lost, context deadline exceeded, server error);
  \<open>ErrAbiUnpack\<close> is the failure of \<open>abi.UnpackIntoInterface\<close>.
\<close>

datatype err = ErrNoRows | ErrDB | ErrAbiUnpack

definition IFNULL :: "'a option \<Rightarrow> 'a \<Rightarrow> 'a" where
  "IFNULL c dflt = (case c of None \<Rightarrow> dflt | Some v \<Rightarrow> v)"

text \<open>The select list of \<open>getOrderByID\<close>, scanned into the struct.\<close>

definition scan_order :: "64 word \<Rightarrow> order_row \<Rightarrow> Order" where
  "scan_order listing r =
     \<lparr>OrderID = order_id r, ListingID = listing, Seller = seller r,
      Buyer = IFNULL (buyer r) [], NFTName = IFNULL (nft_name r) [],
      NFTAddress = nft_address r, URL = IFNULL (url r) [],
      TokenID = token_id r, Amount = amount r, Price = price r, Status = status r,
      TxHash = IFNULL (tx_hash r) [], Deleted = deleted r\<rparr>"

text \<open>
  Every store call takes a flag \<open>down\<close>: the statement failed before it changed anything.
  \<open>forUpdate\<close> appends \<open>FOR UPDATE\<close>; the row lock it takes has no effect on the result of
  the statement itself.
\<close>

definition getOrderByID :: "bool \<Rightarrow> orders_db \<Rightarrow> 64 word \<Rightarrow> bool \<Rightarrow> err + Order" where
  "getOrderByID down d listingID forUpdate =
     (if down then Inl ErrDB
      else case orders d listingID of
             None \<Rightarrow> Inl ErrNoRows
           | Some r \<Rightarrow> Inr (scan_order listingID r))"

definition GetByID :: "bool \<Rightarrow> orders_db \<Rightarrow> 64 word \<Rightarrow> err + Order" where
  "GetByID down d listingID = getOrderByID down d listingID False"


text \<open>The eleven columns \<open>upsertOrder\<close> writes besides the key, under a given \<open>order_id\<close>.\<close>

definition row_VALUES :: "64 word \<Rightarrow> Order \<Rightarrow> order_row" where
  "row_VALUES oid v =
     \<lparr>order_id = oid, seller = Seller v, buyer = Some (Buyer v), nft_name = Some (NFTName v),
      nft_address = NFTAddress v, url = Some (URL v), token_id = TokenID v,
      amount = Amount v, price = Price v, status = Status v, tx_hash = Some (TxHash v),
      deleted = Deleted v\<rparr>"

text \<open>
  \<open>INSERT ... ON DUPLICATE KEY UPDATE\<close>: without a row for the listing a new row gets the
  next \<open>order_id\<close>; with one, the row keeps its \<open>order_id\<close> and every other column is
  overwritten from the struct. \<open>OrderID\<close> of the struct is not among the arguments.
\<close>

definition upsertOrder :: "bool \<Rightarrow> orders_db \<Rightarrow> Order \<Rightarrow> err option \<times> orders_db" where
  "upsertOrder down d v =
     (if down then (Some ErrDB, d)
      else case orders d (ListingID v) of
             None \<Rightarrow>
               (None, d\<lparr>orders := (orders d)(ListingID v \<mapsto> row_VALUES (next_order_id d) v),
                         next_order_id := next_order_id d + 1\<rparr>)
           | Some r \<Rightarrow>
               (None, d\<lparr>orders := (orders d)(ListingID v \<mapsto> row_VALUES (order_id r) v)\<rparr>))"


definition Upsert :: "bool \<Rightarrow> orders_db \<Rightarrow> Order \<Rightarrow> err option \<times> orders_db" where
  "Upsert down d v = upsertOrder down d v"


section \<open>Package chain: the marketplace scanner\<close>

text \<open>
  A log of the chain: its topics (32-byte hashes), its data and the hash of its
  transaction. The scanner reads its ABI from a file of the deployment and renders
  addresses and hashes with go-ethereum; these are parameters of the model, kept in the
  scanner: the three event ids, the decoder of the data of a \<open>Listed\<close> log (\<open>None\<close> is its
  error, the three numbers are \<open>TokenId\<close>, \<open>Amount\<close>, \<open>Price\<close> as \<open>big.Int\<close>),
  \<open>common.Address.Hex\<close> and \<open>common.Hash.Hex\<close>.
\<close>

record Log =
  log_Topics :: "256 word list"
  log_Data :: "8 word list"
  log_TxHash :: "256 word"

record MarketplaceScanner =
  Listed_ID :: "256 word"
  Cancelled_ID :: "256 word"
  Sold_ID :: "256 word"
  UnpackListed :: "8 word list \<Rightarrow> (int \<times> int \<times> int) option"
  Address_Hex :: "160 word \<Rightarrow> string"
  Hash_Hex :: "256 word \<Rightarrow> string"
  maxBatchBlocks :: "64 word"

text \<open>\<open>big.Int.String\<close>: the decimal digits, with a minus sign below zero.\<close>

fun nat_digits :: "nat \<Rightarrow> string" where
  "nat_digits n =
     (if n < 10 then [''0123456789'' ! n]
      else nat_digits (n div 10) @ [''0123456789'' ! (n mod 10)])"

declare nat_digits.simps [simp del]

definition big_String :: "int \<Rightarrow> string" where
  "big_String x = (if x < 0 then CHR ''-'' # nat_digits (nat (- x)) else nat_digits (nat x))"

text \<open>
  \<open>Topics[i].Big().Int64()\<close> keeps the low 64 bits of the topic;
  \<open>common.HexToAddress(Topics[i].Hex())\<close> keeps its low 20 bytes.
\<close>

definition topic_Int64 :: "256 word \<Rightarrow> 64 word" where
  "topic_Int64 t = ucast t"

definition topic_Address :: "256 word \<Rightarrow> 160 word" where
  "topic_Address t = ucast t"

definition big_Int64 :: "int \<Rightarrow> 64 word" where
  "big_Int64 x = word_of_int x"

text \<open>Which of the two store calls of one handler run fail.\<close>

record faults =
  get_down :: bool
  upsert_down :: bool

definition no_faults :: faults where
  "no_faults = \<lparr>get_down = False, upsert_down = False\<rparr>"

definition handleListed ::
  "MarketplaceScanner \<Rightarrow> faults \<Rightarrow> Log \<Rightarrow> orders_db \<Rightarrow> err option \<times> orders_db" where
  "handleListed s f lg d =
     (if length (log_Topics lg) < 4 then (None, d)
      else
        let listingID = log_Topics lg ! 1;
            seller = topic_Address (log_Topics lg ! 2);
            nft = topic_Address (log_Topics lg ! 3)
        in case UnpackListed s (log_Data lg) of
             None \<Rightarrow> (Some ErrAbiUnpack, d)
           | Some (tokenId, amt, prc) \<Rightarrow>
               Upsert (upsert_down f) d
                 \<lparr>OrderID = 0, ListingID = topic_Int64 listingID,
                  Seller = Address_Hex s seller, Buyer = [], NFTName = [],
                  NFTAddress = Address_Hex s nft, URL = [],
                  TokenID = big_Int64 tokenId, Amount = big_Int64 amt,
                  Price = big_String prc, Status = OrderStatusListed,
                  TxHash = Hash_Hex s (log_TxHash lg), Deleted = 0\<rparr>)"

text \<open>The struct literal of the two fallbacks: every field not named is Go's zero value.\<close>

definition zero_Order :: Order where
  "zero_Order =
     \<lparr>OrderID = 0, ListingID = 0, Seller = [], Buyer = [], NFTName = [], NFTAddress = [],
      URL = [], TokenID = 0, Amount = 0, Price = [], Status = [], TxHash = [], Deleted = 0\<rparr>"

definition handleCancelled ::
  "MarketplaceScanner \<Rightarrow> faults \<Rightarrow> Log \<Rightarrow> orders_db \<Rightarrow> err option \<times> orders_db" where
  "handleCancelled s f lg d =
     (if length (log_Topics lg) < 2 then (None, d)
      else
        let listingID = topic_Int64 (log_Topics lg ! 1)
        in case GetByID (get_down f) d listingID of
             Inl e \<Rightarrow>
               Upsert (upsert_down f) d
                 (zero_Order\<lparr>ListingID := listingID, Status := OrderStatusCanceled,
                    TxHash := Hash_Hex s (log_TxHash lg), Deleted := 0\<rparr>)
           | Inr existing \<Rightarrow>
               Upsert (upsert_down f) d
                 (existing\<lparr>Status := OrderStatusCanceled,
                    TxHash := Hash_Hex s (log_TxHash lg)\<rparr>))"

definition handleSold ::
  "MarketplaceScanner \<Rightarrow> faults \<Rightarrow> Log \<Rightarrow> orders_db \<Rightarrow> err option \<times> orders_db" where
  "handleSold s f lg d =
     (if length (log_Topics lg) < 3 then (None, d)
      else
        let listingID = topic_Int64 (log_Topics lg ! 1);
            buyer' = topic_Address (log_Topics lg ! 2)
        in case GetByID (get_down f) d listingID of
             Inl e \<Rightarrow>
               Upsert (upsert_down f) d
                 (zero_Order\<lparr>ListingID := listingID, Buyer := Address_Hex s buyer',
                    Status := OrderStatusSuccess, TxHash := Hash_Hex s (log_TxHash lg),
                    Deleted := 0\<rparr>)
           | Inr existing \<Rightarrow>
               Upsert (upsert_down f) d
                 (existing\<lparr>Buyer := Address_Hex s buyer', Status := OrderStatusSuccess,
                    TxHash := Hash_Hex s (log_TxHash lg)\<rparr>))"

definition handleLog ::
  "MarketplaceScanner \<Rightarrow> faults \<Rightarrow> Log \<Rightarrow> orders_db \<Rightarrow> err option \<times> orders_db" where
  "handleLog s f lg d =
     (if length (log_Topics lg) = 0 then (None, d)
      else
        let sig = log_Topics lg ! 0
        in if sig = Listed_ID s then handleListed s f lg d
           else if sig = Cancelled_ID s then handleCancelled s f lg d
           else if sig = Sold_ID s then handleSold s f lg d
           else (None, d))"

section \<open>Package chain: the polling loop of \<open>Run\<close>\<close>

text \<open>
  \<open>Run\<close> sets \<open>lastScanned\<close> to the head of the chain and then, on every tick, reads the
  head again and scans the blocks above \<open>lastScanned\<close> in sub-ranges. Block numbers and
  the batch size are \<open>uint64\<close>: 64-bit words, whose arithmetic wraps around.

  What one tick reads from its surroundings: the answer of \<open>HeaderByNumber\<close> (an error
  message, or the head's number), the answer of the \<open>n\<close>-th \<open>FilterLogs\<close> query of the tick
  for a range (an error message, or the logs), and which store calls fail while the
  \<open>i\<close>-th log of the \<open>n\<close>-th query is handled. Logging and its throttle
  (\<open>lastLimitLog\<close>) have no effect on the state and are left out.
\<close>

record tick_env =
  HeaderByNumber :: "string + 64 word"
  FilterLogs :: "nat \<Rightarrow> 64 word \<Rightarrow> 64 word \<Rightarrow> string + Log list"
  store_faults :: "nat \<Rightarrow> nat \<Rightarrow> faults"

definition strings_Contains :: "string \<Rightarrow> string \<Rightarrow> bool" where
  "strings_Contains str substr = sublist substr str"

text \<open>The variables of the inner loop \<open>for from <= latest\<close>.\<close>

record scan_state =
  from_block :: "64 word"
  batchSize :: "64 word"
  lastScanned :: "64 word"

text \<open>\<open>to := from + batchSize - 1; if to > latest { to = latest }\<close>\<close>

definition batch_to :: "64 word \<Rightarrow> 64 word \<Rightarrow> 64 word \<Rightarrow> 64 word" where
  "batch_to frm batch latest = (let to = frm + batch - 1 in if to > latest then latest else to)"

text \<open>\<open>for _, lg := range logs\<close>: every log is handled, an error of a handler is only logged.\<close>

fun handle_logs ::
  "MarketplaceScanner \<Rightarrow> (nat \<Rightarrow> faults) \<Rightarrow> nat \<Rightarrow> Log list \<Rightarrow> orders_db \<Rightarrow> orders_db" where
  "handle_logs s fl i [] d = d"
| "handle_logs s fl i (lg # lgs) d = handle_logs s fl (Suc i) lgs (snd (handleLog s (fl i) lg d))"

text \<open>
  One pass through the body of the inner loop, entered with \<open>from <= latest\<close>: the loop
  goes on with new variables (\<open>continue\<close>, or the end of the body), or is left (\<open>break\<close>).
\<close>

datatype 'a loop_step = Continue 'a | Break 'a

definition scan_step ::
  "MarketplaceScanner \<Rightarrow> tick_env \<Rightarrow> 64 word \<Rightarrow> nat \<Rightarrow> scan_state \<times> orders_db
     \<Rightarrow> (scan_state \<times> orders_db) loop_step" where
  "scan_step s env latest n sd =
     (case sd of (st, d) \<Rightarrow>
        let to = batch_to (from_block st) (batchSize st) latest
        in case FilterLogs env n (from_block st) to of
             Inl msg \<Rightarrow>
               if strings_Contains msg ''limit exceeded''
               then if batchSize st > 1
                    then Continue
                           (st\<lparr>batchSize :=
                                 (let b = batchSize st div 2 in if b < 1 then 1 else b)\<rparr>, d)
                    else Continue (st\<lparr>from_block := to + 1, lastScanned := to\<rparr>, d)
               else Break (st, d)
           | Inr logs \<Rightarrow>
               Continue (st\<lparr>from_block := to + 1, lastScanned := to\<rparr>,
                         handle_logs s (store_faults env n) 0 logs d))"

text \<open>
  The inner loop. It need not end (a batch size of 0 never advances), so it is a partial
  function: \<open>None\<close> is a loop that runs forever.
\<close>

partial_function (option) scan_batches ::
  "MarketplaceScanner \<Rightarrow> tick_env \<Rightarrow> 64 word \<Rightarrow> nat \<Rightarrow> scan_state \<times> orders_db
     \<Rightarrow> (scan_state \<times> orders_db) option" where
  "scan_batches s env latest n sd =
     (if from_block (fst sd) \<le> latest
      then case scan_step s env latest n sd of
             Continue sd' \<Rightarrow> scan_batches s env latest (Suc n) sd'
           | Break sd' \<Rightarrow> Some sd'
      else Some sd)"

text \<open>One tick: from \<open>lastScanned\<close> and the table to the new \<open>lastScanned\<close> and table.\<close>

definition Run_tick ::
  "MarketplaceScanner \<Rightarrow> tick_env \<Rightarrow> 64 word \<times> orders_db \<Rightarrow> (64 word \<times> orders_db) option" where
  "Run_tick s env wd =
     (case wd of (scanned, d) \<Rightarrow>
        case HeaderByNumber env of
          Inl msg \<Rightarrow> Some (scanned, d)
        | Inr latest \<Rightarrow>
            if latest \<le> scanned then Some (scanned, d)
            else map_option (\<lambda>(st, d'). (lastScanned st, d'))
                   (scan_batches s env latest 0
                      (\<lparr>from_block = scanned + 1, batchSize = maxBatchBlocks s,
                        lastScanned = scanned\<rparr>, d)))"

text \<open>The ticks of a run until the context is cancelled, one environment per tick.\<close>

fun Run_ticks ::
  "MarketplaceScanner \<Rightarrow> tick_env list \<Rightarrow> 64 word \<times> orders_db \<Rightarrow> (64 word \<times> orders_db) option" where
  "Run_ticks s [] wd = Some wd"
| "Run_ticks s (env # envs) wd =
     (case Run_tick s env wd of None \<Rightarrow> None | Some wd' \<Rightarrow> Run_ticks s envs wd')"

text \<open>\<open>NewMarketplaceScanner\<close> fixes the batch size at 100 blocks.\<close>

definition NewMarketplaceScanner ::
  "256 word \<Rightarrow> 256 word \<Rightarrow> 256 word \<Rightarrow> (8 word list \<Rightarrow> (int \<times> int \<times> int) option)
     \<Rightarrow> (160 word \<Rightarrow> string) \<Rightarrow> (256 word \<Rightarrow> string) \<Rightarrow> MarketplaceScanner" where
  "NewMarketplaceScanner listed cancelled sold unpack addr_hex hash_hex =
     \<lparr>Listed_ID = listed, Cancelled_ID = cancelled, Sold_ID = sold, UnpackListed = unpack,
      Address_Hex = addr_hex, Hash_Hex = hash_hex, maxBatchBlocks = 100\<rparr>"

text \<open>
  What the inner loop keeps true as long as the arithmetic does not wrap: the last block
  scanned lies below the next block to scan, the batch holds at least one block, and
  \<open>latest + batchSize\<close> fits into 64 bits.
\<close>

definition scan_inv :: "64 word \<Rightarrow> scan_state \<Rightarrow> bool" where
  "scan_inv latest st =
     (unat (lastScanned st) < unat (from_block st) \<and> 1 \<le> unat (batchSize st)
      \<and> unat latest + unat (batchSize st) < 2 ^ 64)"

text \<open>The blocks still to scan, then the batch size: every pass lowers this pair.\<close>

definition scan_measure :: "64 word \<Rightarrow> ((scan_state \<times> orders_db) \<times> (scan_state \<times> orders_db)) set" where
  "scan_measure latest =
     measures [\<lambda>sd. Suc (unat latest) - unat (from_block (fst sd)),
               \<lambda>sd. unat (batchSize (fst sd))]"

section \<open>Package store: the nft\_assets table\<close>

text \<open>
  The struct \<open>NftAsset\<close> (without its two timestamps). Its comments say what the zero
  values mean: \<open>TokenID\<close> 0 is "not minted yet" when the column is NULL, \<open>NFTAddress\<close> is
  empty and \<open>Amount\<close> is 0 when the column is NULL.
\<close>

record NftAsset =
  asset_ID :: "64 word"
  asset_Name :: string
  asset_Owner :: string
  asset_CID :: string
  asset_URL :: string
  asset_TokenID :: "64 word"
  asset_NFTAddress :: string
  asset_Amount :: "64 word"
  asset_Deleted :: "8 word"

text \<open>
  A row of table \<open>nft_assets\<close>: \<open>token_id\<close>, \<open>nft_address\<close> and \<open>amount\<close> are the columns
  declared \<open>DEFAULT NULL\<close>. The table is the list of its rows in insertion order, with
  the next value of the auto-increment key \<open>id\<close>.
\<close>

record asset_row =
  a_id :: "64 word"
  a_name :: string
  a_owner :: string
  a_cid :: string
  a_url :: string
  a_token_id :: "64 word option"
  a_nft_address :: "string option"
  a_amount :: "64 word option"
  a_deleted :: "8 word"

record assets_db =
  asset_rows :: "asset_row list"
  next_asset_id :: "64 word"

text \<open>\<open>sql.NullInt64{Int64: v, Valid: ok}\<close> and \<open>sql.NullString{String: v, Valid: ok}\<close>.\<close>

definition Null_arg :: "'a \<Rightarrow> bool \<Rightarrow> 'a option" where
  "Null_arg v valid = (if valid then Some v else None)"

definition Insert :: "bool \<Rightarrow> assets_db \<Rightarrow> NftAsset \<Rightarrow> (err + 64 word) \<times> assets_db" where
  "Insert down db a =
     (if down then (Inl ErrDB, db)
      else (Inr (next_asset_id db),
            db\<lparr>asset_rows := asset_rows db @
                   [\<lparr>a_id = next_asset_id db, a_name = asset_Name a, a_owner = asset_Owner a,
                     a_cid = asset_CID a, a_url = asset_URL a,
                     a_token_id = Null_arg (asset_TokenID a) (asset_TokenID a \<noteq> 0),
                     a_nft_address = Null_arg (asset_NFTAddress a) (asset_NFTAddress a \<noteq> []),
                     a_amount = Null_arg (asset_Amount a) (asset_Amount a \<noteq> 0),
                     a_deleted = asset_Deleted a\<rparr>],
               next_asset_id := next_asset_id db + 1\<rparr>))"

text \<open>The select list shared by \<open>GetByID\<close>, \<open>ListByOwner\<close> and \<open>GetByNFT\<close>.\<close>

definition scan_asset :: "asset_row \<Rightarrow> NftAsset" where
  "scan_asset r =
     \<lparr>asset_ID = a_id r, asset_Name = a_name r, asset_Owner = a_owner r, asset_CID = a_cid r,
      asset_URL = a_url r, asset_TokenID = IFNULL (a_token_id r) 0,
      asset_NFTAddress = IFNULL (a_nft_address r) [],
      asset_Amount = IFNULL (a_amount r) 0, asset_Deleted = a_deleted r\<rparr>"

definition asset_GetByID :: "bool \<Rightarrow> assets_db \<Rightarrow> 64 word \<Rightarrow> err + NftAsset" where
  "asset_GetByID down db ident =
     (if down then Inl ErrDB
      else case find (\<lambda>r. a_id r = ident) (asset_rows db) of
             None \<Rightarrow> Inl ErrNoRows
           | Some r \<Rightarrow> Inr (scan_asset r))"

text \<open>
  \<open>WHERE nft_address = ? AND token_id = ?\<close>: a NULL column equals nothing, so only rows
  with both columns set can match; \<open>LIMIT 1\<close> takes the first.
\<close>

definition matches_NFT :: "string \<Rightarrow> 64 word \<Rightarrow> asset_row \<Rightarrow> bool" where
  "matches_NFT nftAddress tokenID r =
     (a_nft_address r = Some nftAddress \<and> a_token_id r = Some tokenID)"

definition GetByNFT :: "bool \<Rightarrow> assets_db \<Rightarrow> string \<Rightarrow> 64 word \<Rightarrow> err + NftAsset" where
  "GetByNFT down db nftAddress tokenID =
     (if down then Inl ErrDB
      else case find (matches_NFT nftAddress tokenID) (asset_rows db) of
             None \<Rightarrow> Inl ErrNoRows
           | Some r \<Rightarrow> Inr (scan_asset r))"

definition UpdateMintInfo ::
  "bool \<Rightarrow> assets_db \<Rightarrow> 64 word \<Rightarrow> 64 word \<Rightarrow> string \<Rightarrow> 64 word \<Rightarrow> err option \<times> assets_db" where
  "UpdateMintInfo down db ident tokenID nftAddress amt =
     (if down then (Some ErrDB, db)
      else (None,
            db\<lparr>asset_rows :=
                 map (\<lambda>r. if a_id r = ident \<and> a_deleted r = 0
                           then r\<lparr>a_token_id := Some tokenID, a_nft_address := Some nftAddress,
                                  a_amount := Some amt\<rparr>
                           else r)
                   (asset_rows db)\<rparr>))"

definition softDeleteByNFT :: "bool \<Rightarrow> assets_db \<Rightarrow> string \<Rightarrow> 64 word \<Rightarrow> err option \<times> assets_db" where
  "softDeleteByNFT down db nftAddress tokenID =
     (if down then (Some ErrDB, db)
      else (None,
            db\<lparr>asset_rows :=
                 map (\<lambda>r. if matches_NFT nftAddress tokenID r then r\<lparr>a_deleted := 1\<rparr> else r)
                   (asset_rows db)\<rparr>))"



text \<open>
  The rows of a table carry distinct ids below the next id to hand out, as the
  auto-increment primary key guarantees.
\<close>

definition fresh_id :: "assets_db \<Rightarrow> bool" where
  "fresh_id db = list_all (\<lambda>r. a_id r \<noteq> next_asset_id db) (asset_rows db)"

section \<open>The API-driven writer: update of an order's status\<close>

text \<open>
  The handler of \<open>POST /api/v1/orders/:listingId/status\<close> is described by the
  repository's structure document, but the version of \<open>cmd/server/main.go\<close> that holds it
  is not among the sources: the versions at hand register no route that writes an order
  and never call the lock package. Its parts are: \<open>Acquire\<close>, \<open>Release\<close>,
  \<open>GetByIDForUpdateTx\<close>, \<open>UpsertTx\<close>, \<open>RestoreByNFTTx\<close> and \<open>UpdateOwnerByNFTTx\<close>, all
  modelled above from their source. The orchestration below follows the specification.
\<close>










section \<open>Sample data\<close>

text \<open>
  A scanner for the examples: small event ids, the decoder of three 32-byte big-endian
  numbers, and lower-case hexadecimal renderings. Then the events of one listing:
  listing 1001 of token 1 (amount 1, price \<open>10^18\<close> wei) by seller \<open>0xaa\<close>, sold to
  \<open>0xbb\<close>, and a cancellation of the same listing.
\<close>

fun be_bytes :: "nat \<Rightarrow> 'a::len word \<Rightarrow> 8 word list" where
  "be_bytes 0 w = []"
| "be_bytes (Suc n) w = be_bytes n (drop_bit 8 w) @ [ucast w]"

definition be_int :: "8 word list \<Rightarrow> int" where
  "be_int bs = foldl (\<lambda>a b. a * 256 + uint b) 0 bs"

definition sample_unpack :: "8 word list \<Rightarrow> (int \<times> int \<times> int) option" where
  "sample_unpack bs =
     (if length bs = 96
      then Some (be_int (take 32 bs), be_int (take 32 (drop 32 bs)), be_int (drop 64 bs))
      else None)"

definition sample_scanner :: MarketplaceScanner where
  "sample_scanner =
     \<lparr>Listed_ID = 1, Cancelled_ID = 2, Sold_ID = 3, UnpackListed = sample_unpack,
      Address_Hex = (\<lambda>a. ''0x'' @ hex_EncodeToString (be_bytes 20 a)),
      Hash_Hex = (\<lambda>h. ''0x'' @ hex_EncodeToString (be_bytes 32 h)),
      maxBatchBlocks = 100\<rparr>"




definition empty_orders :: orders_db where
  "empty_orders = \<lparr>orders = Map.empty, next_order_id = 1\<rparr>"



text \<open>
  A tick of a provider with a range limit: the head is block 101 and every query is
  rejected.
\<close>

definition limited_always :: tick_env where
  "limited_always =
     \<lparr>HeaderByNumber = Inr 101,
      FilterLogs = (\<lambda>n f t. Inl ''query limit exceeded''),
      store_faults = (\<lambda>n i. no_faults)\<rparr>"

text \<open>
  An uploaded asset before minting, as \<open>POST /assets\<close> builds it; the table after its
  insertion; and that table after a mint-info update with token id 0, an empty address
  and amount 0. Then an asset bound to token 0 of contract \<open>0xaa\<close>.
\<close>

definition uploaded_asset :: NftAsset where
  "uploaded_asset =
     \<lparr>asset_ID = 0, asset_Name = ''cat'', asset_Owner = ''0xbb'', asset_CID = ''Qm1'',
      asset_URL = ''https://gw/Qm1'', asset_TokenID = 0, asset_NFTAddress = [],
      asset_Amount = 0, asset_Deleted = 0\<rparr>"

definition empty_assets :: assets_db where
  "empty_assets = \<lparr>asset_rows = [], next_asset_id = 1\<rparr>"

definition unset_assets :: assets_db where
  "unset_assets = snd (Insert False empty_assets uploaded_asset)"

definition zero_assets :: assets_db where
  "zero_assets = snd (UpdateMintInfo False unset_assets 1 0 [] 0)"

definition token0_asset :: NftAsset where
  "token0_asset = uploaded_asset\<lparr>asset_NFTAddress := ''0xaa'', asset_Amount := 1\<rparr>"





section \<open>Properties of the lock package\<close>

lemma redis_GET_after_DEL: "redis_GET now (redis_DEL kv k) k = None"
  by (simp add: redis_GET_def redis_DEL_def)

lemma redis_GET_later:
  "now \<le> now' \<Longrightarrow> redis_GET now kv k \<noteq> Some v \<Longrightarrow> redis_GET now' kv k \<noteq> Some v"
  by (auto simp: redis_GET_def split: option.splits if_splits)

text \<open>
  Claim C5. Release is a compare-and-delete done in one server command: it deletes the
  lock key exactly when the key's current value is the value recorded in the handle; with
  any other current value (a foreign holder's, or none because the key expired or was
  already released) it leaves the whole store unchanged, whatever else happens to the
  call; no other key is touched; and a repeated release, at the same or a later instant,
  changes nothing more and reports no error.
\<close>

theorem Release_compare_and_delete:
  "(redis_GET now kv (lock_key l) = Some (lock_value l) \<longrightarrow>
      Release False now l kv = (None, kv(lock_key l := None)))
   \<and> (redis_GET now kv (lock_key l) \<noteq> Some (lock_value l) \<longrightarrow>
      snd (Release down now l kv) = kv)
   \<and> (\<forall>k. k \<noteq> lock_key l \<longrightarrow> snd (Release down now l kv) k = kv k)
   \<and> (now \<le> now' \<longrightarrow>
      Release False now' l (snd (Release False now l kv)) = (None, snd (Release False now l kv)))"
proof (intro conjI impI allI)
  assume "redis_GET now kv (lock_key l) = Some (lock_value l)"
  then show "Release False now l kv = (None, kv(lock_key l := None))"
    by (simp add: Release_def release_script_def redis_DEL_def)
next
  assume "redis_GET now kv (lock_key l) \<noteq> Some (lock_value l)"
  then show "snd (Release down now l kv) = kv"
    by (simp add: Release_def release_script_def)
next
  fix k assume "k \<noteq> lock_key l"
  then show "snd (Release down now l kv) k = kv k"
    by (simp add: Release_def release_script_def redis_DEL_def)
next
  assume le: "now \<le> now'"
  show "Release False now' l (snd (Release False now l kv)) = (None, snd (Release False now l kv))"
  proof (cases "redis_GET now kv (lock_key l) = Some (lock_value l)")
    case True
    then show ?thesis
      by (simp add: Release_def release_script_def redis_GET_after_DEL)
  next
    case False
    with le have "redis_GET now' kv (lock_key l) \<noteq> Some (lock_value l)"
      by (rule redis_GET_later)
    with False show ?thesis
      by (simp add: Release_def release_script_def)
  qed
qed

theorem Release_compare_and_delete_witness:
  "redis_GET 3 held_store ''lock:1001'' = Some ''a1''
   \<and> Release False 3 \<lparr>lock_key = ''lock:1001'', lock_value = ''a1''\<rparr> held_store
       = (None, held_store(''lock:1001'' := None))
   \<and> redis_GET 3 held_store ''lock:1001'' \<noteq> Some ''b2''
   \<and> snd (Release False 3 \<lparr>lock_key = ''lock:1001'', lock_value = ''b2''\<rparr> held_store)
       = held_store
   \<and> Release False 5 \<lparr>lock_key = ''lock:1001'', lock_value = ''a1''\<rparr>
         (snd (Release False 3 \<lparr>lock_key = ''lock:1001'', lock_value = ''a1''\<rparr> held_store))
       = (None, held_store(''lock:1001'' := None))"
proof -
  let ?own = "\<lparr>lock_key = ''lock:1001'', lock_value = ''a1''\<rparr>"
  let ?foreign = "\<lparr>lock_key = ''lock:1001'', lock_value = ''b2''\<rparr>"
  have g: "redis_GET 3 held_store ''lock:1001'' = Some ''a1''"
    by (simp add: redis_GET_def held_store_def)
  note own = Release_compare_and_delete
    [where now = 3 and now' = 5 and kv = held_store and down = False and l = ?own]
  note foreign = Release_compare_and_delete
    [where now = 3 and now' = 5 and kv = held_store and down = False and l = ?foreign]
  have 1: "Release False 3 ?own held_store = (None, held_store(''lock:1001'' := None))"
    using own g by simp
  have 2: "snd (Release False 3 ?foreign held_store) = held_store"
    using foreign g by simp
  have "Release False 5 ?own (snd (Release False 3 ?own held_store))
          = (None, snd (Release False 3 ?own held_store))"
    using own by simp
  then have 3: "Release False 5 ?own (snd (Release False 3 ?own held_store))
          = (None, held_store(''lock:1001'' := None))"
    by (simp only: 1 snd_conv)
  show ?thesis using g 1 2 3 by simp
qed

subsection \<open>The lock value\<close>









section \<open>Properties of the event handlers\<close>



lemma upsertOrder_down: "dn \<Longrightarrow> upsertOrder dn d v = (Some ErrDB, d)"
  by (simp add: upsertOrder_def)






subsection \<open>What each handler writes\<close>










subsection \<open>The sample events\<close>










subsection \<open>Terminal states\<close>




subsection \<open>The fallback of the Cancelled and Sold handlers\<close>




subsection \<open>Sold before Listed, Listed before Sold\<close>








section \<open>Properties of the polling loop\<close>

subsection \<open>Arithmetic of block numbers\<close>

lemma unat_batch_end:
  fixes f b l :: "64 word"
  assumes "f \<le> l" and "1 \<le> unat b" and "unat l + unat b < 2 ^ 64"
  shows "unat (f + b - 1) = unat f + unat b - 1"
proof -
  have fl: "unat f \<le> unat l" using assms(1) by (simp add: word_le_nat_alt)
  have "unat f + unat b < 2 ^ LENGTH(64)" using fl assms(3) by simp
  then have s: "unat (f + b) = unat f + unat b" by (simp only: unat_add_lem)
  then have "1 \<le> f + b" using assms(2) by (simp add: word_le_nat_alt)
  then have "unat (f + b - 1) = unat (f + b) - unat (1 :: 64 word)" by (rule unat_sub)
  with s show ?thesis by simp
qed

lemma batch_to_bounds:
  assumes "f \<le> l" and "1 \<le> unat b" and "unat l + unat b < 2 ^ 64"
  shows "unat f \<le> unat (batch_to f b l)" and "unat (batch_to f b l) \<le> unat l"
proof -
  note e = unat_batch_end [OF assms]
  have fl: "unat f \<le> unat l" using assms(1) by (simp add: word_le_nat_alt)
  show "unat f \<le> unat (batch_to f b l)"
    using e fl assms(2) by (auto simp: batch_to_def Let_def word_less_nat_alt)
  show "unat (batch_to f b l) \<le> unat l"
    by (simp add: batch_to_def Let_def word_less_nat_alt)
qed

lemma unat_next_block:
  fixes t l :: "64 word"
  assumes "unat t \<le> unat l" and "unat l + 1 < 2 ^ 64"
  shows "unat (t + 1) = unat t + 1"
proof -
  have "unat t + unat (1 :: 64 word) < 2 ^ LENGTH(64)" using assms by simp
  then have "unat (t + 1) = unat t + unat (1 :: 64 word)" by (simp only: unat_add_lem)
  then show ?thesis by simp
qed

lemma halved_batch:
  fixes b :: "64 word"
  assumes "1 < b"
  shows "(let h = b div 2 in if h < 1 then 1 else h) = b div 2"
    and "1 \<le> unat (b div 2)" and "unat (b div 2) < unat b"
proof -
  have "1 < unat b" using assms by (simp add: word_less_nat_alt)
  moreover have "unat (b div 2) = unat b div 2" by (simp add: unat_div)
  ultimately show "1 \<le> unat (b div 2)" and "unat (b div 2) < unat b" by simp_all
  then show "(let h = b div 2 in if h < 1 then 1 else h) = b div 2"
    by (simp add: Let_def word_less_nat_alt)
qed

subsection \<open>One pass of the inner loop\<close>

lemma scan_step_halves:
  assumes "FilterLogs env n (from_block st) (batch_to (from_block st) (batchSize st) latest)
             = Inl msg"
    and "strings_Contains msg ''limit exceeded''" and "1 < batchSize st"
  shows "scan_step s env latest n (st, d) = Continue (st\<lparr>batchSize := batchSize st div 2\<rparr>, d)"
proof -
  have "unat (batchSize st div 2) \<noteq> 0" using halved_batch(2) [OF assms(3)] by simp
  then have "batchSize st div 2 \<noteq> 0" by (simp only: unat_eq_zero not_False_eq_True)
  then have "\<not> batchSize st div 2 < 1" by (simp add: word_less_1)
  then show ?thesis using assms by (simp add: scan_step_def Let_def)
qed

lemma scan_step_skips:
  assumes "FilterLogs env n (from_block st) (batch_to (from_block st) (batchSize st) latest)
             = Inl msg"
    and "strings_Contains msg ''limit exceeded''" and "\<not> 1 < batchSize st"
  shows "scan_step s env latest n (st, d) =
           Continue (st\<lparr>from_block := batch_to (from_block st) (batchSize st) latest + 1,
                       lastScanned := batch_to (from_block st) (batchSize st) latest\<rparr>, d)"
  using assms by (simp add: scan_step_def Let_def)

lemma scan_step_breaks:
  assumes "FilterLogs env n (from_block st) (batch_to (from_block st) (batchSize st) latest)
             = Inl msg"
    and "\<not> strings_Contains msg ''limit exceeded''"
  shows "scan_step s env latest n (st, d) = Break (st, d)"
  using assms by (simp add: scan_step_def Let_def)

lemma scan_step_advances:
  assumes "FilterLogs env n (from_block st) (batch_to (from_block st) (batchSize st) latest)
             = Inr logs"
  shows "scan_step s env latest n (st, d) =
           Continue (st\<lparr>from_block := batch_to (from_block st) (batchSize st) latest + 1,
                       lastScanned := batch_to (from_block st) (batchSize st) latest\<rparr>,
                     handle_logs s (store_faults env n) 0 logs d)"
  using assms by (simp add: scan_step_def Let_def)

lemma batch_to_one: "f \<le> l \<Longrightarrow> batch_to f 1 l = f"
  by (simp add: batch_to_def Let_def not_less [symmetric])

lemma scan_batches_Continue:
  assumes "from_block st \<le> latest" and "scan_step s env latest n (st, d) = Continue sd'"
  shows "scan_batches s env latest n (st, d) = scan_batches s env latest (Suc n) sd'"
  using assms by (subst scan_batches.simps) simp

lemma scan_batches_Break:
  assumes "from_block st \<le> latest" and "scan_step s env latest n (st, d) = Break sd'"
  shows "scan_batches s env latest n (st, d) = Some sd'"
  using assms by (subst scan_batches.simps) simp

lemma scan_batches_done:
  assumes "\<not> from_block st \<le> latest"
  shows "scan_batches s env latest n (st, d) = Some (st, d)"
  using assms by (subst scan_batches.simps) simp

text \<open>
  Claim C8. When the query of a sub-range is answered with an error whose message
  contains \<open>limit exceeded\<close>: with a batch of more than one block the batch size is halved
  (rounding down, so it stays at least 1) and the loop goes on with the next query from
  the same starting block and the same \<open>lastScanned\<close>; with a batch of one block the block
  is skipped: \<open>lastScanned\<close> becomes that block and the loop goes on with the block after
  it, the batch size still 1.
\<close>

theorem limit_error_halves_then_skips:
  assumes "from_block st \<le> latest"
    and "FilterLogs env n (from_block st) (batch_to (from_block st) (batchSize st) latest)
           = Inl msg"
    and "strings_Contains msg ''limit exceeded''"
  shows
    "(1 < batchSize st \<longrightarrow>
        scan_step s env latest n (st, d) = Continue (st\<lparr>batchSize := batchSize st div 2\<rparr>, d)
        \<and> 1 \<le> batchSize st div 2 \<and> batchSize st div 2 < batchSize st
        \<and> scan_batches s env latest n (st, d)
            = scan_batches s env latest (Suc n) (st\<lparr>batchSize := batchSize st div 2\<rparr>, d))
     \<and> (batchSize st = 1 \<longrightarrow>
        scan_step s env latest n (st, d) =
          Continue (st\<lparr>from_block := from_block st + 1, lastScanned := from_block st\<rparr>, d)
        \<and> scan_batches s env latest n (st, d)
            = scan_batches s env latest (Suc n)
                (st\<lparr>from_block := from_block st + 1, lastScanned := from_block st\<rparr>, d))"
proof (intro conjI impI)
  assume b: "1 < batchSize st"
  show h: "scan_step s env latest n (st, d) = Continue (st\<lparr>batchSize := batchSize st div 2\<rparr>, d)"
    using assms(2,3) b by (rule scan_step_halves)
  show "1 \<le> batchSize st div 2" "batchSize st div 2 < batchSize st"
    using halved_batch(2,3) [OF b] by (simp_all add: word_le_nat_alt word_less_nat_alt)
  show "scan_batches s env latest n (st, d)
            = scan_batches s env latest (Suc n) (st\<lparr>batchSize := batchSize st div 2\<rparr>, d)"
    using assms(1) h by (rule scan_batches_Continue)
next
  assume b: "batchSize st = 1"
  then have nb: "\<not> 1 < batchSize st" by simp
  have to: "batch_to (from_block st) (batchSize st) latest = from_block st"
    using assms(1) b by (simp add: batch_to_one)
  show k: "scan_step s env latest n (st, d) =
          Continue (st\<lparr>from_block := from_block st + 1, lastScanned := from_block st\<rparr>, d)"
    using scan_step_skips [OF assms(2,3) nb, of s d] by (simp only: to)
  show "scan_batches s env latest n (st, d)
            = scan_batches s env latest (Suc n)
                (st\<lparr>from_block := from_block st + 1, lastScanned := from_block st\<rparr>, d)"
    using assms(1) k by (rule scan_batches_Continue)
qed

subsection \<open>The inner loop ends and never moves \<open>lastScanned\<close> back\<close>

lemma advance_inv:
  assumes le: "from_block st \<le> latest" and inv: "scan_inv latest st"
  defines "to \<equiv> batch_to (from_block st) (batchSize st) latest"
  defines "st' \<equiv> st\<lparr>from_block := to + 1, lastScanned := to\<rparr>"
  shows "scan_inv latest st'" and "lastScanned st \<le> lastScanned st'"
    and "((st', d'), (st, d)) \<in> scan_measure latest"
proof -
  from inv have b1: "1 \<le> unat (batchSize st)"
    and fit: "unat latest + unat (batchSize st) < 2 ^ 64"
    and below: "unat (lastScanned st) < unat (from_block st)"
    by (simp_all add: scan_inv_def)
  have lo: "unat (from_block st) \<le> unat to" and hi: "unat to \<le> unat latest"
    unfolding to_def by (rule batch_to_bounds [OF le b1 fit])+
  have "unat latest + 1 < 2 ^ 64" using b1 fit by simp
  with hi have nx: "unat (to + 1) = unat to + 1" by (rule unat_next_block)
  show "scan_inv latest st'"
    using nx b1 fit by (simp add: scan_inv_def st'_def)
  show "lastScanned st \<le> lastScanned st'"
    using below lo by (simp add: st'_def word_le_nat_alt)
  show "((st', d'), (st, d)) \<in> scan_measure latest"
    using nx lo hi by (simp add: scan_measure_def st'_def)
qed

lemma halve_inv:
  assumes inv: "scan_inv latest st" and b: "1 < batchSize st"
  defines "st' \<equiv> st\<lparr>batchSize := batchSize st div 2\<rparr>"
  shows "scan_inv latest st'" and "lastScanned st \<le> lastScanned st'"
    and "((st', d'), (st, d)) \<in> scan_measure latest"
proof -
  note h = halved_batch(2,3) [OF b]
  show "scan_inv latest st'"
    using inv h by (simp add: scan_inv_def st'_def)
  show "lastScanned st \<le> lastScanned st'"
    by (simp add: st'_def)
  show "((st', d'), (st, d)) \<in> scan_measure latest"
    using h by (simp add: scan_measure_def st'_def)
qed

lemma scan_step_inv:
  assumes le: "from_block st \<le> latest" and inv: "scan_inv latest st"
  shows "scan_step s env latest n (st, d) = Break (st, d)
         \<or> (\<exists>st' d'. scan_step s env latest n (st, d) = Continue (st', d')
               \<and> scan_inv latest st' \<and> lastScanned st \<le> lastScanned st'
               \<and> ((st', d'), (st, d)) \<in> scan_measure latest)"
proof (cases "FilterLogs env n (from_block st) (batch_to (from_block st) (batchSize st) latest)")
  case (Inr logs)
  from scan_step_advances [OF Inr, of s d] advance_inv [OF le inv]
  show ?thesis by blast
next
  case (Inl msg)
  show ?thesis
  proof (cases "strings_Contains msg ''limit exceeded''")
    case False
    with Inl show ?thesis by (simp add: scan_step_breaks)
  next
    case True
    show ?thesis
    proof (cases "1 < batchSize st")
      case True
      from scan_step_halves [OF Inl \<open>strings_Contains msg ''limit exceeded''\<close> True, of s d]
        halve_inv [OF inv True]
      show ?thesis by blast
    next
      case False
      from scan_step_skips [OF Inl True False, of s d] advance_inv [OF le inv]
      show ?thesis by blast
    qed
  qed
qed

lemma wf_scan_measure: "wf (scan_measure latest)"
  by (simp add: scan_measure_def)

lemma scan_batches_returns:
  assumes "scan_inv latest (fst sd)"
  shows "\<exists>sd'. scan_batches s env latest n sd = Some sd'
           \<and> lastScanned (fst sd) \<le> lastScanned (fst sd')"
  using assms
proof (induction sd arbitrary: n rule: wf_induct_rule [OF wf_scan_measure [of latest]])
  case (1 sd)
  obtain st d where sd: "sd = (st, d)" by (cases sd)
  from "1.prems" have inv: "scan_inv latest st" by (simp add: sd)
  show ?case
  proof (cases "from_block st \<le> latest")
    case False
    then show ?thesis by (simp add: sd scan_batches_done)
  next
    case True
    from scan_step_inv [OF True inv, of s env n d] show ?thesis
    proof (elim disjE exE conjE)
      assume "scan_step s env latest n (st, d) = Break (st, d)"
      with True show ?thesis by (simp add: sd scan_batches_Break)
    next
      fix st' d'
      assume st: "scan_step s env latest n (st, d) = Continue (st', d')"
        and inv': "scan_inv latest st'" and mono: "lastScanned st \<le> lastScanned st'"
        and dec: "((st', d'), (st, d)) \<in> scan_measure latest"
      from "1.IH" [of "(st', d')" "Suc n"] dec inv'
      obtain sd' where r: "scan_batches s env latest (Suc n) (st', d') = Some sd'"
        and m: "lastScanned st' \<le> lastScanned (fst sd')"
        by (auto simp: sd)
      from scan_batches_Continue [OF True st] r mono m show ?thesis
        by (auto simp: sd)
    qed
  qed
qed

subsection \<open>Ticks\<close>

lemma Run_tick_returns:
  assumes mb: "1 \<le> unat (maxBatchBlocks s)"
    and fit: "\<forall>latest. HeaderByNumber env = Inr latest \<longrightarrow>
                unat latest + unat (maxBatchBlocks s) < 2 ^ 64"
  shows "\<exists>w' d'. Run_tick s env (w, d) = Some (w', d') \<and> w \<le> w'"
proof (cases "HeaderByNumber env")
  case (Inl msg)
  then show ?thesis by (simp add: Run_tick_def)
next
  case (Inr latest)
  show ?thesis
  proof (cases "latest \<le> w")
    case True
    with Inr show ?thesis by (simp add: Run_tick_def)
  next
    case False
    let ?st = "\<lparr>from_block = w + 1, batchSize = maxBatchBlocks s, lastScanned = w\<rparr>"
    from False have lt: "unat w < unat latest" by (simp add: word_le_nat_alt)
    from fit Inr have f: "unat latest + unat (maxBatchBlocks s) < 2 ^ 64" by simp
    with mb have "unat latest + 1 < 2 ^ 64" by simp
    with lt have "unat (w + 1) = unat w + 1" by (intro unat_next_block) simp_all
    with mb f have "scan_inv latest (fst (?st, d))" by (simp add: scan_inv_def)
    from scan_batches_returns [OF this, of s env 0]
    obtain sd' where r: "scan_batches s env latest 0 (?st, d) = Some sd'"
      and m: "w \<le> lastScanned (fst sd')"
      by auto
    obtain st' d' where "sd' = (st', d')" by (cases sd')
    with Inr False r m show ?thesis by (simp add: Run_tick_def)
  qed
qed

lemma Run_ticks_returns:
  assumes mb: "1 \<le> unat (maxBatchBlocks s)"
    and fit: "\<forall>env \<in> set envs. \<forall>latest. HeaderByNumber env = Inr latest \<longrightarrow>
                unat latest + unat (maxBatchBlocks s) < 2 ^ 64"
  shows "\<exists>w' d'. Run_ticks s envs (w, d) = Some (w', d') \<and> w \<le> w'"
  using fit
proof (induction envs arbitrary: w d)
  case Nil
  then show ?case by simp
next
  case (Cons env envs)
  from Cons.prems have "\<forall>latest. HeaderByNumber env = Inr latest \<longrightarrow>
                unat latest + unat (maxBatchBlocks s) < 2 ^ 64"
    by simp
  from Run_tick_returns [OF mb this, of w d]
  obtain w1 d1 where t: "Run_tick s env (w, d) = Some (w1, d1)" and m1: "w \<le> w1" by auto
  from Cons.IH [of w1 d1] Cons.prems
  obtain w' d' where r: "Run_ticks s envs (w1, d1) = Some (w', d')" and m2: "w1 \<le> w'"
    by auto
  from t r m1 m2 show ?case by auto
qed

lemma NewMarketplaceScanner_batch:
  "1 \<le> unat (maxBatchBlocks (NewMarketplaceScanner li ca so un ah hh))"
  by (simp add: NewMarketplaceScanner_def)

text \<open>
  Claim C7. With a batch size of at least one block (the constructor sets 100) and as
  long as the head's number plus the batch size fits into 64 bits, every tick ends, and
  it ends with \<open>lastScanned\<close> at or above its value before the tick, whatever the
  provider answers: a head that cannot be read, no new block, logs, range-limit errors
  with halving, a skipped block at batch size 1, or another error that leaves the loop.
  So over any number of ticks \<open>lastScanned\<close> never decreases.
\<close>

theorem watermark_never_decreases:
  assumes "1 \<le> unat (maxBatchBlocks s)"
    and "\<forall>env \<in> set (env # envs). \<forall>latest. HeaderByNumber env = Inr latest \<longrightarrow>
                unat latest + unat (maxBatchBlocks s) < 2 ^ 64"
  shows "(\<exists>w' d'. Run_tick s env (w, d) = Some (w', d') \<and> w \<le> w')
       \<and> (\<exists>w' d'. Run_ticks s (env # envs) (w, d) = Some (w', d') \<and> w \<le> w')"
proof
  from assms(2) have "\<forall>latest. HeaderByNumber env = Inr latest \<longrightarrow>
                unat latest + unat (maxBatchBlocks s) < 2 ^ 64"
    by simp
  with assms(1) show "\<exists>w' d'. Run_tick s env (w, d) = Some (w', d') \<and> w \<le> w'"
    by (rule Run_tick_returns)
  from assms show "\<exists>w' d'. Run_ticks s (env # envs) (w, d) = Some (w', d') \<and> w \<le> w'"
    by (rule Run_ticks_returns)
qed

subsection \<open>The sample ticks\<close>

lemma sample_limit_message: "strings_Contains ''query limit exceeded'' ''limit exceeded''"
proof -
  have "sublist ''limit exceeded'' (''query '' @ ''limit exceeded'' @ [])"
    by (rule sublist_appendI)
  then show ?thesis by (simp add: strings_Contains_def)
qed

lemma limited_always_halve:
  assumes "1 < b"
  shows "scan_batches sample_scanner limited_always 101 n
           (\<lparr>from_block = 101, batchSize = b, lastScanned = 100\<rparr>, d)
         = scan_batches sample_scanner limited_always 101 (Suc n)
           (\<lparr>from_block = 101, batchSize = b div 2, lastScanned = 100\<rparr>, d)"
proof -
  let ?st = "\<lparr>from_block = 101, batchSize = b, lastScanned = 100\<rparr>"
  have q: "FilterLogs limited_always n (from_block ?st)
             (batch_to (from_block ?st) (batchSize ?st) 101) = Inl ''query limit exceeded''"
    by (simp add: limited_always_def)
  have b: "1 < batchSize ?st" using assms by simp
  have "from_block ?st \<le> 101" by simp
  from scan_batches_Continue [OF this scan_step_halves [OF q sample_limit_message b]]
  show ?thesis by simp
qed

lemma limited_always_skip:
  "scan_batches sample_scanner limited_always 101 n
           (\<lparr>from_block = 101, batchSize = 1, lastScanned = 100\<rparr>, d)
   = Some (\<lparr>from_block = 102, batchSize = 1, lastScanned = 101\<rparr>, d)"
proof -
  let ?st = "\<lparr>from_block = 101, batchSize = 1, lastScanned = 100\<rparr>"
  have q: "FilterLogs limited_always n (from_block ?st)
             (batch_to (from_block ?st) (batchSize ?st) 101) = Inl ''query limit exceeded''"
    by (simp add: limited_always_def)
  have b: "\<not> 1 < batchSize ?st" by simp
  have le: "from_block ?st \<le> 101" by simp
  have to: "batch_to 101 1 101 = (101 :: 64 word)"
    by (simp add: batch_to_one)
  have "scan_batches sample_scanner limited_always 101 n (?st, d)
        = scan_batches sample_scanner limited_always 101 (Suc n)
            (\<lparr>from_block = 102, batchSize = 1, lastScanned = 101\<rparr>, d)"
    using scan_batches_Continue
      [OF le scan_step_skips [OF q sample_limit_message b, of sample_scanner d]]
    by (simp add: to)
  then show ?thesis by (simp add: scan_batches_done)
qed

lemma limited_always_tick:
  "Run_tick sample_scanner limited_always (100, d) = Some (101, d)"
proof -
  have "scan_batches sample_scanner limited_always 101 0
           (\<lparr>from_block = 101, batchSize = 100, lastScanned = 100\<rparr>, d)
        = Some (\<lparr>from_block = 102, batchSize = 1, lastScanned = 101\<rparr>, d)"
    by (simp add: limited_always_halve limited_always_skip)
  then show ?thesis
    by (simp add: Run_tick_def limited_always_def sample_scanner_def)
qed

text \<open>
  An instance of claim C8: block 101 is queried with a batch of 100 blocks and rejected,
  the batch becomes 50; rejected with a batch of one block, block 101 is skipped.
\<close>

theorem limit_error_halves_then_skips_witness:
  "(101 :: 64 word) \<le> 101
   \<and> strings_Contains ''query limit exceeded'' ''limit exceeded''
   \<and> scan_step sample_scanner limited_always 101 0
         (\<lparr>from_block = 101, batchSize = 100, lastScanned = 100\<rparr>, empty_orders)
       = Continue (\<lparr>from_block = 101, batchSize = 50, lastScanned = 100\<rparr>, empty_orders)
   \<and> scan_step sample_scanner limited_always 101 6
         (\<lparr>from_block = 101, batchSize = 1, lastScanned = 100\<rparr>, empty_orders)
       = Continue (\<lparr>from_block = 102, batchSize = 1, lastScanned = 101\<rparr>, empty_orders)"
proof -
  let ?big = "\<lparr>from_block = 101, batchSize = 100, lastScanned = 100\<rparr>"
  let ?one = "\<lparr>from_block = 101, batchSize = 1, lastScanned = 100\<rparr>"
  have le: "from_block ?big \<le> 101" "from_block ?one \<le> 101" by simp_all
  have q: "FilterLogs limited_always 0 (from_block ?big)
             (batch_to (from_block ?big) (batchSize ?big) 101) = Inl ''query limit exceeded''"
    "FilterLogs limited_always 6 (from_block ?one)
             (batch_to (from_block ?one) (batchSize ?one) 101) = Inl ''query limit exceeded''"
    by (simp_all add: limited_always_def)
  note big = limit_error_halves_then_skips
    [OF le(1) q(1) sample_limit_message, of sample_scanner empty_orders]
  note one = limit_error_halves_then_skips
    [OF le(2) q(2) sample_limit_message, of sample_scanner empty_orders]
  have "scan_step sample_scanner limited_always 101 0 (?big, empty_orders)
       = Continue (\<lparr>from_block = 101, batchSize = 50, lastScanned = 100\<rparr>, empty_orders)"
    using big by simp
  moreover have "scan_step sample_scanner limited_always 101 6 (?one, empty_orders)
       = Continue (\<lparr>from_block = 102, batchSize = 1, lastScanned = 101\<rparr>, empty_orders)"
    using one by simp
  ultimately show ?thesis using sample_limit_message by simp
qed

text \<open>
  An instance of claim C7: \<open>lastScanned\<close> is 100, the head is 101, and every query is
  rejected: the batch shrinks from 100 to 1 block, block 101 is skipped, and the tick
  ends with \<open>lastScanned\<close> at 101.
\<close>

theorem watermark_never_decreases_witness:
  "1 \<le> unat (maxBatchBlocks sample_scanner)
   \<and> HeaderByNumber limited_always = Inr 101
   \<and> unat (101 :: 64 word) + unat (maxBatchBlocks sample_scanner) < 2 ^ 64
   \<and> Run_tick sample_scanner limited_always (100, empty_orders) = Some (101, empty_orders)
   \<and> (100 :: 64 word) \<le> 101"
proof -
  have mb: "1 \<le> unat (maxBatchBlocks sample_scanner)"
    by (simp add: sample_scanner_def)
  have hd: "HeaderByNumber limited_always = Inr 101"
    by (simp add: limited_always_def)
  have fit: "unat (101 :: 64 word) + unat (maxBatchBlocks sample_scanner) < 2 ^ 64"
    by (simp add: sample_scanner_def)
  have all: "\<forall>env \<in> set (limited_always # []). \<forall>latest. HeaderByNumber env = Inr latest \<longrightarrow>
                unat latest + unat (maxBatchBlocks sample_scanner) < 2 ^ 64"
    using fit by (simp add: hd)
  from watermark_never_decreases [OF mb all, of 100 empty_orders]
  obtain w' d' where "Run_tick sample_scanner limited_always (100, empty_orders) = Some (w', d')"
    and "100 \<le> w'"
    by blast
  moreover have "Run_tick sample_scanner limited_always (100, empty_orders)
                 = Some (101, empty_orders)"
    by (rule limited_always_tick)
  ultimately have "(100 :: 64 word) \<le> 101" by simp
  with mb hd fit limited_always_tick show ?thesis by blast
qed

section \<open>Properties of the nft\_assets store\<close>

lemma find_append_fresh:
  "list_all (\<lambda>r. \<not> P r) xs \<Longrightarrow> P x \<Longrightarrow> find P (xs @ [x]) = Some x"
  by (induction xs) auto

lemma scan_inserted_row:
  "scan_asset
     \<lparr>a_id = i, a_name = asset_Name a, a_owner = asset_Owner a,
      a_cid = asset_CID a, a_url = asset_URL a,
      a_token_id = Null_arg (asset_TokenID a) (asset_TokenID a \<noteq> 0),
      a_nft_address = Null_arg (asset_NFTAddress a) (asset_NFTAddress a \<noteq> []),
      a_amount = Null_arg (asset_Amount a) (asset_Amount a \<noteq> 0),
      a_deleted = asset_Deleted a\<rparr>
   = a\<lparr>asset_ID := i\<rparr>"
  by (cases a) (simp add: scan_asset_def Null_arg_def IFNULL_def)

lemma Insert_then_GetByID:
  assumes "fresh_id db"
  shows "asset_GetByID False (snd (Insert False db a)) (next_asset_id db)
         = Inr (a\<lparr>asset_ID := next_asset_id db\<rparr>)"
proof -
  let ?row = "\<lparr>a_id = next_asset_id db, a_name = asset_Name a, a_owner = asset_Owner a,
      a_cid = asset_CID a, a_url = asset_URL a,
      a_token_id = Null_arg (asset_TokenID a) (asset_TokenID a \<noteq> 0),
      a_nft_address = Null_arg (asset_NFTAddress a) (asset_NFTAddress a \<noteq> []),
      a_amount = Null_arg (asset_Amount a) (asset_Amount a \<noteq> 0),
      a_deleted = asset_Deleted a\<rparr>"
  have "list_all (\<lambda>r. \<not> a_id r = next_asset_id db) (asset_rows db)"
    using assms by (simp add: fresh_id_def)
  then have "find (\<lambda>r. a_id r = next_asset_id db) (asset_rows db @ [?row]) = Some ?row"
    by (rule find_append_fresh) simp
  then show ?thesis
    by (simp add: asset_GetByID_def Insert_def scan_inserted_row)
qed

lemma scan_asset_NULL_is_zero:
  "scan_asset (r\<lparr>a_token_id := None, a_nft_address := None, a_amount := None\<rparr>)
   = scan_asset (r\<lparr>a_token_id := Some 0, a_nft_address := Some [], a_amount := Some 0\<rparr>)"
  by (simp add: scan_asset_def IFNULL_def)

lemma Insert_columns:
  "asset_rows (snd (Insert False db a)) = asset_rows db @
     [\<lparr>a_id = next_asset_id db, a_name = asset_Name a, a_owner = asset_Owner a,
       a_cid = asset_CID a, a_url = asset_URL a,
       a_token_id = (if asset_TokenID a = 0 then None else Some (asset_TokenID a)),
       a_nft_address = (if asset_NFTAddress a = [] then None else Some (asset_NFTAddress a)),
       a_amount = (if asset_Amount a = 0 then None else Some (asset_Amount a)),
       a_deleted = asset_Deleted a\<rparr>]"
  by (simp add: Insert_def Null_arg_def)

text \<open>
  Claim C9, as the code has it. The struct has no value for "unset": \<open>Insert\<close> stores NULL
  for a token id of 0, an empty contract address and an amount of 0, and the readers
  return 0, the empty string and 0 for NULL columns. So reading an inserted asset back
  by its id returns the fields that were inserted (with the id assigned), and a row with
  NULL columns and a row holding 0, the empty string and 0 are read as the same asset.
\<close>

theorem unset_and_zero_coincide:
  assumes "fresh_id db"
  shows
    "fst (Insert False db a) = Inr (next_asset_id db)
     \<and> asset_rows (snd (Insert False db a)) = asset_rows db @
         [\<lparr>a_id = next_asset_id db, a_name = asset_Name a, a_owner = asset_Owner a,
           a_cid = asset_CID a, a_url = asset_URL a,
           a_token_id = (if asset_TokenID a = 0 then None else Some (asset_TokenID a)),
           a_nft_address =
             (if asset_NFTAddress a = [] then None else Some (asset_NFTAddress a)),
           a_amount = (if asset_Amount a = 0 then None else Some (asset_Amount a)),
           a_deleted = asset_Deleted a\<rparr>]
     \<and> asset_GetByID False (snd (Insert False db a)) (next_asset_id db)
         = Inr (a\<lparr>asset_ID := next_asset_id db\<rparr>)
     \<and> scan_asset (r\<lparr>a_token_id := None, a_nft_address := None, a_amount := None\<rparr>)
         = scan_asset (r\<lparr>a_token_id := Some 0, a_nft_address := Some [], a_amount := Some 0\<rparr>)"
  using Insert_then_GetByID [OF assms] Insert_columns scan_asset_NULL_is_zero
  by (simp add: Insert_def)

theorem unset_and_zero_coincide_witness:
  "fresh_id empty_assets
   \<and> fst (Insert False empty_assets uploaded_asset) = Inr 1
   \<and> map a_token_id (asset_rows unset_assets) = [None]
   \<and> asset_GetByID False unset_assets 1 = Inr (uploaded_asset\<lparr>asset_ID := 1\<rparr>)"
proof -
  have f: "fresh_id empty_assets" by (simp add: fresh_id_def empty_assets_def)
  note t = unset_and_zero_coincide [OF f, of uploaded_asset]
  have n: "next_asset_id empty_assets = 1" by (simp add: empty_assets_def)
  have z: "asset_TokenID uploaded_asset = 0" "asset_rows empty_assets = []"
    by (simp_all add: uploaded_asset_def empty_assets_def)
  show ?thesis
    using t f by (simp add: unset_assets_def n z)
qed

text \<open>
  The claim as stated fails. The table after the upload holds NULL in the three columns;
  after a mint-info update with 0, the empty string and 0 it holds these values; both
  read back as the same asset. And an asset bound to token 0 of a contract is stored
  with a NULL token id, so that the lookup by contract and token 0 does not find it.
\<close>

theorem unset_distinct_from_zero_counterexample:
  "map a_token_id (asset_rows unset_assets) = [None]
   \<and> map a_token_id (asset_rows zero_assets) = [Some 0]
   \<and> asset_GetByID False unset_assets 1 = asset_GetByID False zero_assets 1
   \<and> fst (Insert False empty_assets token0_asset) = Inr 1
   \<and> map a_token_id (asset_rows (snd (Insert False empty_assets token0_asset))) = [None]
   \<and> GetByNFT False (snd (Insert False empty_assets token0_asset)) ''0xaa'' 0 = Inl ErrNoRows"
  by (simp add: unset_assets_def zero_assets_def empty_assets_def uploaded_asset_def
      token0_asset_def Insert_def UpdateMintInfo_def asset_GetByID_def GetByNFT_def
      matches_NFT_def scan_asset_def Null_arg_def IFNULL_def)

section \<open>Properties of the status update\<close>












end
